theory Spec2Isabelle
  imports Complex_Main "HOL-Library.Word"
begin

section \<open>JavaScript values and strings\<close>

text \<open>
  The text typed by the user is a JavaScript string: a sequence of UTF-16 code units, and
  \<^verbatim>\<open>text.length\<close> counts them. Identifiers, URLs and messages are plain strings; a
  character of an identifier outside ASCII (the e-acute of a voice name) is written by its
  code unit.
\<close>

type_synonym utf16 = "16 word list"

text \<open>\<^verbatim>\<open>String.prototype.trim\<close> removes white space and line terminators at both ends.\<close>

definition is_ws :: "16 word \<Rightarrow> bool" where
  "is_ws c = (c = 0x09 \<or> c = 0x0A \<or> c = 0x0B \<or> c = 0x0C \<or> c = 0x0D \<or> c = 0x20
     \<or> c = 0xA0 \<or> c = 0x1680 \<or> (0x2000 \<le> c \<and> c \<le> 0x200A) \<or> c = 0x2028 \<or> c = 0x2029
     \<or> c = 0x202F \<or> c = 0x205F \<or> c = 0x3000 \<or> c = 0xFEFF)"

definition trim :: "utf16 \<Rightarrow> utf16" where
  "trim s = rev (dropWhile is_ws (rev (dropWhile is_ws s)))"

fun startsWith :: "string \<Rightarrow> string \<Rightarrow> bool" where
  "startsWith s [] = True"
| "startsWith [] (p # ps) = False"
| "startsWith (c # cs) (p # ps) = (c = p \<and> startsWith cs ps)"

fun includes_str :: "string \<Rightarrow> string \<Rightarrow> bool" where
  "includes_str [] sub = (sub = [])"
| "includes_str (c # cs) sub = (startsWith (c # cs) sub \<or> includes_str cs sub)"

text \<open>The decimal digits of a natural number, as a template literal prints a status code.\<close>

definition digit_char :: "nat \<Rightarrow> char" where
  "digit_char d = ''0123456789'' ! d"

fun nat_toString :: "nat \<Rightarrow> string" where
  "nat_toString n = (if n < 10 then [digit_char n]
     else nat_toString (n div 10) @ [digit_char (n mod 10)])"

declare nat_toString.simps [simp del]

definition int_toString :: "int \<Rightarrow> string" where
  "int_toString i = (if i < 0 then CHR ''-'' # nat_toString (nat (- i)) else nat_toString (nat i))"

text \<open>
  \<^verbatim>\<open>Number.prototype.toString\<close> is a primitive of the runtime; the functions below take it as
  the parameter \<open>toS\<close>. On an integer-valued number of ordinary size it prints the decimal
  digits, which is what \<open>integer_toString\<close> computes.
\<close>

definition integer_toString :: "real \<Rightarrow> string" where
  "integer_toString r = int_toString \<lfloor>r\<rfloor>"

text \<open>
  The values a response body or a thrown value can hold. \<open>Obj\<close> lists the own properties of
  an object, \<open>Buf\<close> is an \<^verbatim>\<open>ArrayBuffer\<close>.
\<close>

datatype jsval =
    Undefined
  | Null
  | Bool bool
  | Num real
  | Str string
  | Obj "(string \<times> jsval) list"
  | Arr "jsval list"
  | Buf "8 word list"

fun truthy :: "jsval \<Rightarrow> bool" where
  "truthy Undefined = False"
| "truthy Null = False"
| "truthy (Bool b) = b"
| "truthy (Num n) = (n \<noteq> 0)"
| "truthy (Str s) = (s \<noteq> [])"
| "truthy (Obj kvs) = True"
| "truthy (Arr xs) = True"
| "truthy (Buf b) = True"

text \<open>\<^verbatim>\<open>a || b\<close>\<close>

definition js_or :: "jsval \<Rightarrow> jsval \<Rightarrow> jsval" where
  "js_or a b = (if truthy a then a else b)"

datatype exn =
    TTSApiError string "nat option"
  | TypeError string
  | SyntaxError
  | OtherError string

text \<open>
  Reading one of the properties the program reads (\<^verbatim>\<open>audioUrl\<close>, \<^verbatim>\<open>url\<close>, \<^verbatim>\<open>contentType\<close>,
  \<^verbatim>\<open>requestId\<close>, \<^verbatim>\<open>message\<close>, \<^verbatim>\<open>error\<close>): on \<^verbatim>\<open>null\<close> and \<^verbatim>\<open>undefined\<close> the access
  throws, an object gives its own property, every other value gives \<^verbatim>\<open>undefined\<close>.
\<close>

fun get_prop :: "jsval \<Rightarrow> string \<Rightarrow> exn + jsval" where
  "get_prop Undefined k = Inl (TypeError ''Cannot read properties of undefined'')"
| "get_prop Null k = Inl (TypeError ''Cannot read properties of null'')"
| "get_prop (Obj kvs) k = Inr (case map_of kvs k of None \<Rightarrow> Undefined | Some v \<Rightarrow> v)"
| "get_prop v k = Inr Undefined"

text \<open>
  The string conversion the \<^verbatim>\<open>Error\<close> constructor applies to its message. An array joins
  its elements with commas, \<^verbatim>\<open>null\<close> and \<^verbatim>\<open>undefined\<close> elements printing as nothing.
\<close>

fun ToString :: "(real \<Rightarrow> string) \<Rightarrow> jsval \<Rightarrow> string"
  and join_elems :: "(real \<Rightarrow> string) \<Rightarrow> jsval list \<Rightarrow> string" where
  "ToString toS Undefined = ''undefined''"
| "ToString toS Null = ''null''"
| "ToString toS (Bool b) = (if b then ''true'' else ''false'')"
| "ToString toS (Num n) = toS n"
| "ToString toS (Str s) = s"
| "ToString toS (Obj kvs) = ''[object Object]''"
| "ToString toS (Arr xs) = join_elems toS xs"
| "ToString toS (Buf b) = ''[object ArrayBuffer]''"
| "join_elems toS [] = []"
| "join_elems toS (x # xs) =
     (if x = Undefined \<or> x = Null then [] else ToString toS x)
     @ (if xs = [] then [] else '','' @ join_elems toS xs)"

section \<open>The network\<close>

datatype engine = standard | neural

record TTSRequest =
  text' :: utf16
  voiceId :: string
  engine :: engine
  outputFormat :: string
  speechRate :: string
  pitch :: string

text \<open>
  What \<^verbatim>\<open>fetch\<close> resolves to. \<open>json\<close> is the outcome of \<^verbatim>\<open>response.json()\<close>: the parsed
  body, or the value the call rejects with when the body is not JSON or cannot be read;
  \<open>arrayBuffer\<close> likewise for the binary body.
\<close>

record response =
  status :: nat
  statusText :: string
  content_type :: "string option"
  x_request_id :: "string option"
  json :: "exn + jsval"
  arrayBuffer :: "exn + 8 word list"

definition ok :: "response \<Rightarrow> bool" where
  "ok r = (200 \<le> status r \<and> status r \<le> 299)"

text \<open>
  The environment of a call: the build-time variables, what \<^verbatim>\<open>fetch\<close> does with a URL and
  a JSON body (it rejects with a thrown value or resolves to a response), the URL that
  \<^verbatim>\<open>URL.createObjectURL\<close> hands out and the identifier \<^verbatim>\<open>crypto.randomUUID\<close> draws.
\<close>

record env =
  VITE_TTS_API_URL :: "string option"
  VITE_SUPABASE_URL :: "string option"
  fetch :: "string \<Rightarrow> TTSRequest \<Rightarrow> exn + response"
  createObjectURL_result :: string
  randomUUID :: string

text \<open>\<^verbatim>\<open>s || t\<close> on strings, and \<^verbatim>\<open>headers.get(h) || t\<close>.\<close>

definition str_or :: "string \<Rightarrow> string \<Rightarrow> string" where
  "str_or s t = (if s \<noteq> [] then s else t)"

definition header_or :: "string option \<Rightarrow> string \<Rightarrow> string" where
  "header_or h t = (case h of None \<Rightarrow> t | Some s \<Rightarrow> str_or s t)"

subsection \<open>Shape A: the Lambda gateway\<close>

definition getApiUrl :: "env \<Rightarrow> exn + string" where
  "getApiUrl e = (case VITE_TTS_API_URL e of
       None \<Rightarrow> Inl (TTSApiError
         ''TTS API URL not configured. Please set VITE_TTS_API_URL environment variable.'' None)
     | Some url \<Rightarrow>
         if url = [] then Inl (TTSApiError
           ''TTS API URL not configured. Please set VITE_TTS_API_URL environment variable.'' None)
         else Inr url)"

text \<open>The message of the error thrown for a response that is not ok (lines 304 to 312).\<close>

definition errorMessage_A :: "(real \<Rightarrow> string) \<Rightarrow> response \<Rightarrow> string" where
  "errorMessage_A toS r =
     (let errorMessage = ''HTTP error! status: '' @ nat_toString (status r) in
      case json r of
        Inl err \<Rightarrow> str_or (statusText r) errorMessage
      | Inr errorData \<Rightarrow>
          (case get_prop errorData ''message'' of
             Inl err \<Rightarrow> str_or (statusText r) errorMessage
           | Inr m \<Rightarrow>
               (case get_prop errorData ''error'' of
                  Inl err \<Rightarrow> str_or (statusText r) errorMessage
                | Inr er \<Rightarrow> ToString toS (js_or m (js_or er (Str errorMessage))))))"

text \<open>The body of the \<^verbatim>\<open>try\<close> block once \<^verbatim>\<open>fetch\<close> has resolved.\<close>

definition handle_response_A :: "(real \<Rightarrow> string) \<Rightarrow> env \<Rightarrow> response \<Rightarrow> exn + jsval" where
  "handle_response_A toS e r =
     (if \<not> ok r then Inl (TTSApiError (errorMessage_A toS r) (Some (status r)))
      else
        let contentType = header_or (content_type r) [] in
        if includes_str contentType ''audio/'' then
          (case arrayBuffer r of
             Inl err \<Rightarrow> Inl err
           | Inr audioBuffer \<Rightarrow>
               Inr (Obj [(''audioUrl'', Str (createObjectURL_result e)),
                         (''contentType'', Str contentType),
                         (''requestId'', Str (header_or (x_request_id r) (randomUUID e))),
                         (''audioData'', Buf audioBuffer)]))
        else
          (case json r of
             Inl err \<Rightarrow> Inl err
           | Inr jsonResponse \<Rightarrow>
               (case get_prop jsonResponse ''audioUrl'' of
                  Inl err \<Rightarrow> Inl err
                | Inr audioUrl \<Rightarrow>
                    (case get_prop jsonResponse ''url'' of
                       Inl err \<Rightarrow> Inl err
                     | Inr url \<Rightarrow>
                  (case get_prop jsonResponse ''contentType'' of
                     Inl err \<Rightarrow> Inl err
                   | Inr ct \<Rightarrow>
                  (case get_prop jsonResponse ''requestId'' of
                     Inl err \<Rightarrow> Inl err
                   | Inr rid \<Rightarrow>
                       Inr (Obj [(''audioUrl'', js_or audioUrl url),
                                 (''contentType'', js_or ct (Str ''audio/mpeg'')),
                                 (''requestId'', js_or rid (Str (randomUUID e)))])))))))"

text \<open>The \<^verbatim>\<open>catch\<close> block of Shape A.\<close>

definition catch_A :: "exn \<Rightarrow> exn" where
  "catch_A error = (case error of
       TTSApiError m s \<Rightarrow> error
     | TypeError m \<Rightarrow>
         if includes_str m ''fetch'' then TTSApiError
           ''Network error. Please check your internet connection and VITE_TTS_API_URL configuration.''
           None
         else TTSApiError ''Failed to convert text to speech. Please try again.'' None
     | SyntaxError \<Rightarrow> TTSApiError ''Failed to convert text to speech. Please try again.'' None
     | OtherError m \<Rightarrow> TTSApiError ''Failed to convert text to speech. Please try again.'' None)"

definition convertTextToSpeech_A ::
    "(real \<Rightarrow> string) \<Rightarrow> env \<Rightarrow> TTSRequest \<Rightarrow> exn + jsval" where
  "convertTextToSpeech_A toS e request =
     (case getApiUrl e of
        Inl err \<Rightarrow> Inl err
      | Inr apiUrl \<Rightarrow>
          (case (case fetch e (apiUrl @ ''/synthesize'') request of
                   Inl err \<Rightarrow> Inl err
                 | Inr r \<Rightarrow> handle_response_A toS e r) of
             Inl error \<Rightarrow> Inl (catch_A error)
           | Inr result \<Rightarrow> Inr result))"

subsection \<open>Shape B: the authenticated function endpoint\<close>

definition API_BASE_URL :: "env \<Rightarrow> string" where
  "API_BASE_URL e =
     (case VITE_SUPABASE_URL e of None \<Rightarrow> ''undefined'' | Some u \<Rightarrow> u) @ ''/functions/v1''"

definition handle_response_B :: "(real \<Rightarrow> string) \<Rightarrow> response \<Rightarrow> exn + jsval" where
  "handle_response_B toS r =
     (if \<not> ok r then
        let errorData = (case json r of Inl err \<Rightarrow> Obj [] | Inr d \<Rightarrow> d) in
        (case get_prop errorData ''message'' of
           Inl err \<Rightarrow> Inl err
         | Inr m \<Rightarrow>
             Inl (TTSApiError
               (ToString toS (js_or m (Str (''HTTP error! status: '' @ nat_toString (status r)))))
               (Some (status r))))
      else json r)"

definition catch_B :: "exn \<Rightarrow> exn" where
  "catch_B error = (case error of
       TTSApiError m s \<Rightarrow> error
     | TypeError m \<Rightarrow> TTSApiError ''Failed to convert text to speech. Please try again.'' None
     | SyntaxError \<Rightarrow> TTSApiError ''Failed to convert text to speech. Please try again.'' None
     | OtherError m \<Rightarrow> TTSApiError ''Failed to convert text to speech. Please try again.'' None)"

definition convertTextToSpeech_B ::
    "(real \<Rightarrow> string) \<Rightarrow> env \<Rightarrow> TTSRequest \<Rightarrow> exn + jsval" where
  "convertTextToSpeech_B toS e request =
     (case (case fetch e (API_BASE_URL e @ ''/text-to-speech'') request of
              Inl err \<Rightarrow> Inl err
            | Inr r \<Rightarrow> handle_response_B toS r) of
        Inl error \<Rightarrow> Inl (catch_B error)
      | Inr result \<Rightarrow> Inr result)"

section \<open>Voices\<close>

datatype gender = Male | Female

record voice =
  id' :: string
  name :: string
  gender :: gender
  language :: string
  languageCode :: string

definition DEMO_VOICES :: "voice list" where
  "DEMO_VOICES = [
     \<lparr>id' = ''Joanna'', name = ''Joanna'', gender = Female, language = ''English (US)'', languageCode = ''en-US''\<rparr>,
     \<lparr>id' = ''Matthew'', name = ''Matthew'', gender = Male, language = ''English (US)'', languageCode = ''en-US''\<rparr>,
     \<lparr>id' = ''Amy'', name = ''Amy'', gender = Female, language = ''English (UK)'', languageCode = ''en-GB''\<rparr>,
     \<lparr>id' = ''Brian'', name = ''Brian'', gender = Male, language = ''English (UK)'', languageCode = ''en-GB''\<rparr>,
     \<lparr>id' = (''C'' @ [CHR 0xE9] @ ''line''), name = (''C'' @ [CHR 0xE9] @ ''line''), gender = Female, language = ''French'', languageCode = ''fr-FR''\<rparr>,
     \<lparr>id' = ''Mathieu'', name = ''Mathieu'', gender = Male, language = ''French'', languageCode = ''fr-FR''\<rparr>]"

text \<open>The list that \<^verbatim>\<open>getAvailableVoices\<close> of Shape A returns.\<close>

definition polly_voices :: "voice list" where
  "polly_voices = [
     \<lparr>id' = ''Joanna'', name = ''Joanna'', gender = Female, language = ''English (US)'', languageCode = ''en-US''\<rparr>,
     \<lparr>id' = ''Matthew'', name = ''Matthew'', gender = Male, language = ''English (US)'', languageCode = ''en-US''\<rparr>,
     \<lparr>id' = ''Ivy'', name = ''Ivy'', gender = Female, language = ''English (US)'', languageCode = ''en-US''\<rparr>,
     \<lparr>id' = ''Justin'', name = ''Justin'', gender = Male, language = ''English (US)'', languageCode = ''en-US''\<rparr>,
     \<lparr>id' = ''Kendra'', name = ''Kendra'', gender = Female, language = ''English (US)'', languageCode = ''en-US''\<rparr>,
     \<lparr>id' = ''Kimberly'', name = ''Kimberly'', gender = Female, language = ''English (US)'', languageCode = ''en-US''\<rparr>,
     \<lparr>id' = ''Salli'', name = ''Salli'', gender = Female, language = ''English (US)'', languageCode = ''en-US''\<rparr>,
     \<lparr>id' = ''Joey'', name = ''Joey'', gender = Male, language = ''English (US)'', languageCode = ''en-US''\<rparr>,
     \<lparr>id' = ''Amy'', name = ''Amy'', gender = Female, language = ''English (UK)'', languageCode = ''en-GB''\<rparr>,
     \<lparr>id' = ''Brian'', name = ''Brian'', gender = Male, language = ''English (UK)'', languageCode = ''en-GB''\<rparr>,
     \<lparr>id' = ''Emma'', name = ''Emma'', gender = Female, language = ''English (UK)'', languageCode = ''en-GB''\<rparr>,
     \<lparr>id' = ''Nicole'', name = ''Nicole'', gender = Female, language = ''English (AU)'', languageCode = ''en-AU''\<rparr>,
     \<lparr>id' = ''Russell'', name = ''Russell'', gender = Male, language = ''English (AU)'', languageCode = ''en-AU''\<rparr>,
     \<lparr>id' = ''Olivia'', name = ''Olivia'', gender = Female, language = ''English (AU)'', languageCode = ''en-AU''\<rparr>,
     \<lparr>id' = (''C'' @ [CHR 0xE9] @ ''line''), name = (''C'' @ [CHR 0xE9] @ ''line''), gender = Female, language = ''French'', languageCode = ''fr-FR''\<rparr>,
     \<lparr>id' = ''Mathieu'', name = ''Mathieu'', gender = Male, language = ''French'', languageCode = ''fr-FR''\<rparr>,
     \<lparr>id' = (''L'' @ [CHR 0xE9] @ ''a''), name = (''L'' @ [CHR 0xE9] @ ''a''), gender = Female, language = ''French'', languageCode = ''fr-FR''\<rparr>,
     \<lparr>id' = ''Marlene'', name = ''Marlene'', gender = Female, language = ''German'', languageCode = ''de-DE''\<rparr>,
     \<lparr>id' = ''Hans'', name = ''Hans'', gender = Male, language = ''German'', languageCode = ''de-DE''\<rparr>,
     \<lparr>id' = ''Vicki'', name = ''Vicki'', gender = Female, language = ''German'', languageCode = ''de-DE''\<rparr>,
     \<lparr>id' = (''Pen'' @ [CHR 0xE9] @ ''lope''), name = (''Pen'' @ [CHR 0xE9] @ ''lope''), gender = Female, language = ''Spanish (ES)'', languageCode = ''es-ES''\<rparr>,
     \<lparr>id' = ''Enrique'', name = ''Enrique'', gender = Male, language = ''Spanish (ES)'', languageCode = ''es-ES''\<rparr>,
     \<lparr>id' = ''Conchita'', name = ''Conchita'', gender = Female, language = ''Spanish (ES)'', languageCode = ''es-ES''\<rparr>,
     \<lparr>id' = ''Carla'', name = ''Carla'', gender = Female, language = ''Italian'', languageCode = ''it-IT''\<rparr>,
     \<lparr>id' = ''Giorgio'', name = ''Giorgio'', gender = Male, language = ''Italian'', languageCode = ''it-IT''\<rparr>,
     \<lparr>id' = ''Bianca'', name = ''Bianca'', gender = Female, language = ''Italian'', languageCode = ''it-IT''\<rparr>,
     \<lparr>id' = (''In'' @ [CHR 0xEA] @ ''s''), name = (''In'' @ [CHR 0xEA] @ ''s''), gender = Female, language = ''Portuguese'', languageCode = ''pt-PT''\<rparr>,
     \<lparr>id' = ''Cristiano'', name = ''Cristiano'', gender = Male, language = ''Portuguese'', languageCode = ''pt-PT''\<rparr>,
     \<lparr>id' = ''Mizuki'', name = ''Mizuki'', gender = Female, language = ''Japanese'', languageCode = ''ja-JP''\<rparr>,
     \<lparr>id' = ''Takumi'', name = ''Takumi'', gender = Male, language = ''Japanese'', languageCode = ''ja-JP''\<rparr>,
     \<lparr>id' = ''Seoyeon'', name = ''Seoyeon'', gender = Female, language = ''Korean'', languageCode = ''ko-KR''\<rparr>,
     \<lparr>id' = ''Zhiyu'', name = ''Zhiyu'', gender = Female, language = ''Chinese (Mandarin)'', languageCode = ''cmn-CN''\<rparr>]"

definition getAvailableVoices_A :: "env \<Rightarrow> exn + voice list" where
  "getAvailableVoices_A e = Inr polly_voices"

section \<open>The application\<close>

text \<open>The state variables of \<^verbatim>\<open>App\<close>.\<close>

record app_state =
  st_text :: utf16
  selectedVoice :: string
  st_speechRate :: real
  st_pitch :: real
  st_engine :: engine
  voices :: "voice list"
  audioUrl :: jsval
  isGenerating :: bool
  error :: "string option"
  success :: "string option"
  loadingVoices :: bool

definition initial_app_state :: app_state where
  "initial_app_state = \<lparr>st_text = [], selectedVoice = ''Joanna'', st_speechRate = 1,
     st_pitch = 0, st_engine = standard, voices = DEMO_VOICES, audioUrl = Null,
     isGenerating = False, error = None, success = None, loadingVoices = False\<rparr>"

text \<open>
  \<^verbatim>\<open>loadVoices\<close>, given the outcome of \<^verbatim>\<open>getAvailableVoices()\<close>. The second component is
  what the \<^verbatim>\<open>catch\<close> branch writes with \<^verbatim>\<open>console.warn\<close>: it is empty unless the fallback
  to the voices already in the state was taken.
\<close>

definition loadVoices :: "(exn + voice list) \<Rightarrow> app_state \<Rightarrow> app_state \<times> string list" where
  "loadVoices outcome st =
     (case outcome of
        Inr availableVoices \<Rightarrow> (st\<lparr>voices := availableVoices, loadingVoices := False\<rparr>, [])
      | Inl err \<Rightarrow>
          (st\<lparr>loadingVoices := False\<rparr>,
           [''Failed to load voices from API, using demo voices:'']))"

text \<open>The request that \<^verbatim>\<open>handleGenerate\<close> builds (lines 66 to 73).\<close>

definition build_request :: "(real \<Rightarrow> string) \<Rightarrow> app_state \<Rightarrow> TTSRequest" where
  "build_request toS st =
     \<lparr>text' = trim (st_text st), voiceId = selectedVoice st, engine = st_engine st,
      outputFormat = ''mp3'', speechRate = toS (st_speechRate st), pitch = toS (st_pitch st)\<rparr>"

text \<open>The \<^verbatim>\<open>catch\<close> block of \<^verbatim>\<open>handleGenerate\<close>.\<close>

definition catch_generate :: "exn \<Rightarrow> app_state \<Rightarrow> app_state" where
  "catch_generate err st = (case err of
       TTSApiError m s \<Rightarrow> st\<lparr>error := Some m\<rparr>
     | TypeError m \<Rightarrow> st\<lparr>error := Some ''An unexpected error occurred. Please try again.''\<rparr>
     | SyntaxError \<Rightarrow> st\<lparr>error := Some ''An unexpected error occurred. Please try again.''\<rparr>
     | OtherError m \<Rightarrow> st\<lparr>error := Some ''An unexpected error occurred. Please try again.''\<rparr>)"

text \<open>
  \<^verbatim>\<open>handleGenerate\<close>, from the click to the end of the \<^verbatim>\<open>finally\<close> block.
  \<open>convertTextToSpeech\<close> is the adapter the application was built with. The result is the
  state afterwards and the list of requests handed to the adapter: an empty list means it
  was not called, so nothing went to the network. The timer that clears the success message
  three seconds later and the console output are left out.
\<close>

definition handleGenerate ::
    "(real \<Rightarrow> string) \<Rightarrow> (TTSRequest \<Rightarrow> exn + jsval) \<Rightarrow> app_state
      \<Rightarrow> app_state \<times> TTSRequest list" where
  "handleGenerate toS convertTextToSpeech st =
     (if trim (st_text st) = [] then
        (st\<lparr>error := Some ''Please enter some text to convert to speech.''\<rparr>, [])
      else if length (st_text st) > 3000 then
        (st\<lparr>error := Some ''Text exceeds maximum length of 3,000 characters.''\<rparr>, [])
      else
        let st1 = st\<lparr>isGenerating := True, error := None, success := None\<rparr>;
            request = build_request toS st;
            st2 = (case convertTextToSpeech request of
                     Inl err \<Rightarrow> catch_generate err st1
                   | Inr response \<Rightarrow>
                       (case get_prop response ''audioUrl'' of
                          Inl err \<Rightarrow> catch_generate err st1
                        | Inr url \<Rightarrow>
                            st1\<lparr>audioUrl := url,
                                success := Some ''Audio generated successfully!''\<rparr>))
        in (st2\<lparr>isGenerating := False\<rparr>, [request]))"

section \<open>The audio player\<close>

record AudioPlayerState =
  isPlaying :: bool
  currentTime :: real
  duration :: real
  volume :: real

definition initial_player_state :: AudioPlayerState where
  "initial_player_state = \<lparr>isPlaying = False, currentTime = 0, duration = 0, volume = 1\<rparr>"

text \<open>
  The component renders the \<^verbatim>\<open>audio\<close> element, and so fills \<^verbatim>\<open>audioRef.current\<close>, exactly
  when its \<^verbatim>\<open>audioUrl\<close> property is neither \<^verbatim>\<open>null\<close> nor empty.
\<close>

definition audio_mounted :: "string option \<Rightarrow> bool" where
  "audio_mounted audio_url = (case audio_url of None \<Rightarrow> False | Some url \<Rightarrow> url \<noteq> [])"

text \<open>The body of the first effect, which runs when \<^verbatim>\<open>audioUrl\<close> has changed.\<close>

definition audioUrl_effect :: "string option \<Rightarrow> AudioPlayerState \<Rightarrow> AudioPlayerState" where
  "audioUrl_effect audio_url st =
     (if \<not> audio_mounted audio_url then st else st\<lparr>currentTime := 0, isPlaying := False\<rparr>)"

text \<open>
  The listeners of the media element. \<open>updateTime\<close> receives \<^verbatim>\<open>audio.currentTime\<close>,
  \<open>updateDuration\<close> receives \<^verbatim>\<open>audio.duration\<close>, \<open>None\<close> standing for \<^verbatim>\<open>NaN\<close>.
\<close>

definition updateTime :: "real \<Rightarrow> AudioPlayerState \<Rightarrow> AudioPlayerState" where
  "updateTime t st = st\<lparr>currentTime := t\<rparr>"

definition updateDuration :: "real option \<Rightarrow> AudioPlayerState \<Rightarrow> AudioPlayerState" where
  "updateDuration d st = st\<lparr>duration := (case d of None \<Rightarrow> 0 | Some x \<Rightarrow> x)\<rparr>"

definition handleEnded :: "AudioPlayerState \<Rightarrow> AudioPlayerState" where
  "handleEnded st = st\<lparr>isPlaying := False, currentTime := 0\<rparr>"

text \<open>
  The handlers of the controls. \<open>newTime\<close> and \<open>newVolume\<close> are the numbers that
  \<^verbatim>\<open>parseFloat\<close> read from the slider. The assignments to the media element itself are
  not part of the state the component keeps.
\<close>

definition handleSeek :: "string option \<Rightarrow> real \<Rightarrow> AudioPlayerState \<Rightarrow> AudioPlayerState" where
  "handleSeek audio_url newTime st =
     (if \<not> audio_mounted audio_url then st else st\<lparr>currentTime := newTime\<rparr>)"

definition handleVolumeChange ::
    "string option \<Rightarrow> real \<Rightarrow> AudioPlayerState \<Rightarrow> AudioPlayerState" where
  "handleVolumeChange audio_url newVolume st =
     (if \<not> audio_mounted audio_url then st else st\<lparr>volume := newVolume\<rparr>)"

definition restart :: "string option \<Rightarrow> AudioPlayerState \<Rightarrow> AudioPlayerState" where
  "restart audio_url st = (if \<not> audio_mounted audio_url then st else st\<lparr>currentTime := 0\<rparr>)"

text \<open>\<open>play_resolves\<close> tells whether the promise of \<^verbatim>\<open>audio.play()\<close> resolves.\<close>

definition togglePlay :: "string option \<Rightarrow> bool \<Rightarrow> AudioPlayerState \<Rightarrow> AudioPlayerState" where
  "togglePlay audio_url play_resolves st =
     (if \<not> audio_mounted audio_url then st
      else if isPlaying st then st\<lparr>isPlaying := False\<rparr>
      else if play_resolves then st\<lparr>isPlaying := True\<rparr>
      else st)"

subsection \<open>Blob handles\<close>

text \<open>
  The browser's registry of object URLs: the handles that are live, and the calls of
  \<^verbatim>\<open>URL.revokeObjectURL\<close> in the order they were made.
\<close>

record browser =
  live :: "string set"
  revoked :: "string list"

definition createObjectURL :: "string \<Rightarrow> browser \<Rightarrow> browser" where
  "createObjectURL url b = b\<lparr>live := insert url (live b)\<rparr>"

definition revokeObjectURL :: "string \<Rightarrow> browser \<Rightarrow> browser" where
  "revokeObjectURL url b = b\<lparr>live := live b - {url}, revoked := revoked b @ [url]\<rparr>"

definition cleanupAudioUrl :: "string \<Rightarrow> browser \<Rightarrow> browser" where
  "cleanupAudioUrl url b =
     (if url \<noteq> [] \<and> startsWith url ''blob:'' then revokeObjectURL url b else b)"

text \<open>The function the second effect returns, closed over the \<^verbatim>\<open>audioUrl\<close> of its render.\<close>

definition cleanup_effect :: "string option \<Rightarrow> browser \<Rightarrow> browser" where
  "cleanup_effect audio_url b =
     (case audio_url of
        None \<Rightarrow> b
      | Some url \<Rightarrow> if url \<noteq> [] then cleanupAudioUrl url b else b)"

text \<open>
  A mounted player: the \<^verbatim>\<open>audioUrl\<close> property of its last render, its state, and the
  browser's registry. Rendering it with another \<^verbatim>\<open>audioUrl\<close> is what replaces the resource:
  both effects depend on \<^verbatim>\<open>[audioUrl]\<close>, so when the value differs the cleanup of the
  previous render runs and then the effect bodies of the new one; when it is the same,
  nothing runs.
\<close>

record player =
  audioUrl_prop :: "string option"
  state :: AudioPlayerState
  blobs :: browser

definition mount :: "string option \<Rightarrow> browser \<Rightarrow> player" where
  "mount audio_url b =
     \<lparr>audioUrl_prop = audio_url, state = audioUrl_effect audio_url initial_player_state,
      blobs = b\<rparr>"

definition render :: "string option \<Rightarrow> player \<Rightarrow> player" where
  "render audio_url p =
     (if audio_url = audioUrl_prop p then p
      else \<lparr>audioUrl_prop = audio_url,
            state = audioUrl_effect audio_url (state p),
            blobs = cleanup_effect (audioUrl_prop p) (blobs p)\<rparr>)"

definition unmount :: "player \<Rightarrow> browser" where
  "unmount p = cleanup_effect (audioUrl_prop p) (blobs p)"

text \<open>The range \<open>[lo, hi]\<close> a value is forced into, as the specification words it.\<close>

definition spec_clamp :: "real \<Rightarrow> real \<Rightarrow> real \<Rightarrow> real" where
  "spec_clamp lo hi x = max lo (min hi x)"

text \<open>
  The adapter's call of \<^verbatim>\<open>URL.createObjectURL\<close> as the page sees it: the new handle is
  registered while the player still shows the resource of its last render.
\<close>

definition create_blob :: "string \<Rightarrow> player \<Rightarrow> player" where
  "create_blob url p = p\<lparr>blobs := createObjectURL url (blobs p)\<rparr>"

section \<open>Example inputs\<close>

text \<open>Four backends: one per kind of answer the adapters distinguish.\<close>

definition backend_400 :: env where
  "backend_400 =
     \<lparr>VITE_TTS_API_URL = Some ''https://gateway.example'',
      VITE_SUPABASE_URL = Some ''https://project.example'',
      fetch = (\<lambda>url body. Inr \<lparr>status = 400, statusText = ''Bad Request'',
         content_type = Some ''application/json'', x_request_id = None,
         json = Inr (Obj [(''error'', Str ''Missing required fields'')]),
         arrayBuffer = Inr []\<rparr>),
      createObjectURL_result = ''blob:1'', randomUUID = ''uuid-1''\<rparr>"

definition backend_audio :: env where
  "backend_audio =
     \<lparr>VITE_TTS_API_URL = Some ''https://gateway.example'',
      VITE_SUPABASE_URL = Some ''https://project.example'',
      fetch = (\<lambda>url body. Inr \<lparr>status = 200, statusText = ''OK'',
         content_type = Some ''audio/mpeg'', x_request_id = None,
         json = Inl SyntaxError,
         arrayBuffer = Inr [0x49, 0x44, 0x33]\<rparr>),
      createObjectURL_result = ''blob:1'', randomUUID = ''uuid-1''\<rparr>"

definition backend_empty_object :: env where
  "backend_empty_object =
     \<lparr>VITE_TTS_API_URL = Some ''https://gateway.example'',
      VITE_SUPABASE_URL = Some ''https://project.example'',
      fetch = (\<lambda>url body. Inr \<lparr>status = 200, statusText = ''OK'',
         content_type = Some ''application/json'', x_request_id = None,
         json = Inr (Obj []),
         arrayBuffer = Inr []\<rparr>),
      createObjectURL_result = ''blob:1'', randomUUID = ''uuid-1''\<rparr>"

definition backend_offline :: env where
  "backend_offline =
     \<lparr>VITE_TTS_API_URL = Some ''https://gateway.example'',
      VITE_SUPABASE_URL = Some ''https://project.example'',
      fetch = (\<lambda>url body. Inl (TypeError ''Failed to fetch'')),
      createObjectURL_result = ''blob:1'', randomUUID = ''uuid-1''\<rparr>"

text \<open>
  Application states: the text \<^verbatim>\<open>Hi\<close> with an audio already generated, then the same with
  a rate and a pitch beyond the sliders, with a catalog reloaded from a backend that does
  not list the selected voice, and with texts of 3001 spaces, 3001 letters and 3000
  letters.
\<close>

definition hi_state :: app_state where
  "hi_state = initial_app_state\<lparr>st_text := [0x48, 0x69], audioUrl := Str ''blob:0''\<rparr>"

definition out_of_range_state :: app_state where
  "out_of_range_state = hi_state\<lparr>st_speechRate := 5, st_pitch := 25\<rparr>"

definition unknown_voice_state :: app_state where
  "unknown_voice_state =
     fst (loadVoices
       (Inr [\<lparr>id' = ''Zelda'', name = ''Zelda'', gender = Female, language = ''English (US)'',
              languageCode = ''en-US''\<rparr>])
       hi_state)"

definition blank_long_state :: app_state where
  "blank_long_state = hi_state\<lparr>st_text := replicate 3001 0x20\<rparr>"

definition long_state :: app_state where
  "long_state = hi_state\<lparr>st_text := replicate 3001 0x61\<rparr>"

definition full_state :: app_state where
  "full_state = hi_state\<lparr>st_text := replicate 3000 0x61\<rparr>"

text \<open>A player half a minute into a two-minute blob.\<close>

definition playing_120 :: AudioPlayerState where
  "playing_120 = \<lparr>isPlaying = True, currentTime = 30, duration = 120, volume = 1 / 2\<rparr>"

definition player_A :: player where
  "player_A = \<lparr>audioUrl_prop = Some ''blob:A'', state = playing_120,
     blobs = \<lparr>live = {''blob:A''}, revoked = []\<rparr>\<rparr>"

section \<open>Evaluation lemmas\<close>

lemma nat_toString_400: "nat_toString 400 = ''400''"
  by (simp add: nat_toString.simps digit_char_def)

lemma integer_toString_values:
  "integer_toString 5 = ''5''" "integer_toString 4 = ''4''"
  "integer_toString 25 = ''25''" "integer_toString 20 = ''20''"
  by (simp_all add: integer_toString_def int_toString_def nat_toString.simps digit_char_def)

lemma trim_hi: "trim [0x48, 0x69] = [0x48, 0x69]"
  by (simp add: trim_def is_ws_def)

lemma trim_blank: "trim (replicate n 0x20) = []"
  by (simp add: trim_def is_ws_def)

lemma trim_letters: "trim (replicate n 0x61) = replicate n 0x61"
  by (simp add: trim_def is_ws_def)

text \<open>
  The example player is what the page reaches from an empty registry: the player is
  mounted without audio, the adapter creates the blob, the player is rendered with it,
  the metadata arrive, the user starts playback, half a minute passes and the volume is
  halved.
\<close>

lemma player_A_reachable:
  "player_A =
     (let p = render (Some ''blob:A'')
                (create_blob ''blob:A'' (mount None \<lparr>live = {}, revoked = []\<rparr>))
      in p\<lparr>state := handleVolumeChange (Some ''blob:A'') (1 / 2)
            (updateTime 30 (togglePlay (Some ''blob:A'') True
              (updateDuration (Some 120) (state p))))\<rparr>)"
  by (simp add: player_A_def playing_120_def render_def create_blob_def mount_def
      createObjectURL_def cleanup_effect_def audioUrl_effect_def audio_mounted_def
      initial_player_state_def handleVolumeChange_def updateTime_def togglePlay_def
      updateDuration_def)

lemma startsWith_nonempty: "startsWith url ''blob:'' \<Longrightarrow> url \<noteq> []"
  by (cases url) simp_all

lemma gateway_audio_result:
  "convertTextToSpeech_A toS backend_audio request =
     Inr (Obj [(''audioUrl'', Str ''blob:1''), (''contentType'', Str ''audio/mpeg''),
               (''requestId'', Str ''uuid-1''), (''audioData'', Buf [0x49, 0x44, 0x33])])"
  by (simp add: convertTextToSpeech_A_def backend_audio_def getApiUrl_def
      handle_response_A_def ok_def header_or_def str_or_def)

lemma gateway_offline_result:
  "convertTextToSpeech_A toS backend_offline request = Inl (TTSApiError
     ''Network error. Please check your internet connection and VITE_TTS_API_URL configuration.''
     None)"
  by (simp add: convertTextToSpeech_A_def backend_offline_def getApiUrl_def catch_A_def)

lemma function_offline_result:
  "convertTextToSpeech_B toS backend_offline request =
     Inl (TTSApiError ''Failed to convert text to speech. Please try again.'' None)"
  by (simp add: convertTextToSpeech_B_def backend_offline_def catch_B_def)

section \<open>What the adapters throw\<close>

text \<open>Whatever goes wrong inside either adapter leaves it as a \<^verbatim>\<open>TTSApiError\<close>.\<close>

lemma convertTextToSpeech_A_throws_TTSApiError:
  "convertTextToSpeech_A toS e request = Inl err \<Longrightarrow> \<exists>m s. err = TTSApiError m s"
  by (auto simp: convertTextToSpeech_A_def getApiUrl_def catch_A_def
      split: option.splits if_splits sum.splits exn.splits)

lemma convertTextToSpeech_B_throws_TTSApiError:
  "convertTextToSpeech_B toS e request = Inl err \<Longrightarrow> \<exists>m s. err = TTSApiError m s"
  by (auto simp: convertTextToSpeech_B_def catch_B_def split: sum.splits exn.splits)

text \<open>A rejected \<^verbatim>\<open>fetch\<close> and an answer that is not ok both end in a throw.\<close>

lemma convertTextToSpeech_A_network_failure:
  assumes "getApiUrl e = Inr apiUrl"
    and "fetch e (apiUrl @ ''/synthesize'') request = Inl err
         \<or> (\<exists>r. fetch e (apiUrl @ ''/synthesize'') request = Inr r \<and> \<not> ok r)"
  shows "isl (convertTextToSpeech_A toS e request)"
  using assms by (auto simp: convertTextToSpeech_A_def handle_response_A_def)

lemma convertTextToSpeech_B_network_failure:
  assumes "fetch e (API_BASE_URL e @ ''/text-to-speech'') request = Inl err
         \<or> (\<exists>r. fetch e (API_BASE_URL e @ ''/text-to-speech'') request = Inr r \<and> \<not> ok r)"
  shows "isl (convertTextToSpeech_B toS e request)"
  using assms
  by (auto simp: convertTextToSpeech_B_def handle_response_B_def Let_def split: sum.splits)

text \<open>
  C5. A backend that answers 400 with the body \<^verbatim>\<open>{"error":"Missing required fields"}\<close>:
  the gateway adapter (Shape A) throws an error with that message and the status 400; the
  function adapter (Shape B) reads only the \<^verbatim>\<open>message\<close> property of the body and throws
  the status line in its place, with the status 400.
\<close>

theorem error_400_message_by_shape:
  "convertTextToSpeech_A toS backend_400 request =
     Inl (TTSApiError ''Missing required fields'' (Some 400))
   \<and> convertTextToSpeech_B toS backend_400 request =
     Inl (TTSApiError ''HTTP error! status: 400'' (Some 400))"
  by (simp add: convertTextToSpeech_A_def convertTextToSpeech_B_def backend_400_def
      getApiUrl_def handle_response_A_def handle_response_B_def ok_def errorMessage_A_def
      js_or_def catch_A_def catch_B_def nat_toString_400)

section \<open>A failed attempt keeps the audio\<close>

text \<open>
  C9. An attempt fails when the text is blank or too long, when the adapter throws (which
  is how a rejected \<^verbatim>\<open>fetch\<close> and an answer that is not ok end, see above), or when the
  adapter's result is \<^verbatim>\<open>null\<close> or \<^verbatim>\<open>undefined\<close> so that reading its \<^verbatim>\<open>audioUrl\<close> throws.
  After every such attempt the \<^verbatim>\<open>audioUrl\<close> of the application is the one it had before,
  and an error message is shown.
\<close>

theorem failed_generate_keeps_audioUrl:
  assumes "trim (st_text st) = [] \<or> 3000 < length (st_text st)
           \<or> isl (convertTextToSpeech (build_request toS st))
           \<or> convertTextToSpeech (build_request toS st) = Inr Null
           \<or> convertTextToSpeech (build_request toS st) = Inr Undefined"
  shows "audioUrl (fst (handleGenerate toS convertTextToSpeech st)) = audioUrl st
     \<and> error (fst (handleGenerate toS convertTextToSpeech st)) \<noteq> None"
  using assms
  by (auto simp: handleGenerate_def Let_def catch_generate_def isl_def split: exn.splits)

theorem failed_generate_keeps_audioUrl_witness:
  "isl (convertTextToSpeech_A integer_toString backend_offline
          (build_request integer_toString hi_state))
   \<and> audioUrl (fst (handleGenerate integer_toString
          (convertTextToSpeech_A integer_toString backend_offline) hi_state)) = Str ''blob:0''
   \<and> error (fst (handleGenerate integer_toString
          (convertTextToSpeech_A integer_toString backend_offline) hi_state)) \<noteq> None"
  using failed_generate_keeps_audioUrl [where st = hi_state and toS = integer_toString
      and convertTextToSpeech = "convertTextToSpeech_A integer_toString backend_offline"]
  by (simp add: gateway_offline_result) (simp add: hi_state_def)

text \<open>
  Conversely, when \<^verbatim>\<open>audioUrl\<close> has changed, the adapter returned a result and the new
  value is that result's \<^verbatim>\<open>audioUrl\<close>.
\<close>

lemma changed_audioUrl_comes_from_result:
  assumes "audioUrl (fst (handleGenerate toS convertTextToSpeech st)) \<noteq> audioUrl st"
  shows "\<exists>response. convertTextToSpeech (build_request toS st) = Inr response
     \<and> get_prop response ''audioUrl''
         = Inr (audioUrl (fst (handleGenerate toS convertTextToSpeech st)))"
  using assms
  by (auto simp: handleGenerate_def Let_def catch_generate_def
      split: exn.splits sum.splits if_splits)

text \<open>
  A player rendered again with the \<^verbatim>\<open>audioUrl\<close> it already has runs no effect: nothing is
  revoked and its state stays.
\<close>

lemma render_same_audioUrl: "render (audioUrl_prop p) p = p"
  by (simp add: render_def)

section \<open>The static voice list\<close>

lemma polly_voices_length: "length polly_voices = 32"
  by (simp add: polly_voices_def)

text \<open>
  C10. In Shape A \<^verbatim>\<open>getAvailableVoices\<close> does not depend on the environment: every call
  returns the same list of 32 voices and none throws, so \<^verbatim>\<open>loadVoices\<close> stores that list
  and never takes the branch that keeps the demo voices and writes the warning.
\<close>

theorem getAvailableVoices_A_constant:
  "getAvailableVoices_A e = getAvailableVoices_A e'
   \<and> getAvailableVoices_A e = Inr polly_voices
   \<and> polly_voices \<noteq> []
   \<and> length polly_voices = 32
   \<and> loadVoices (getAvailableVoices_A e) st
       = (st\<lparr>voices := polly_voices, loadingVoices := False\<rparr>, [])"
  using polly_voices_length by (auto simp: getAvailableVoices_A_def loadVoices_def)

text \<open>The fallback is taken exactly when the call throws, as it can in Shape B.\<close>

lemma loadVoices_fallback:
  "loadVoices (Inl err) st
     = (st\<lparr>loadingVoices := False\<rparr>, [''Failed to load voices from API, using demo voices:''])"
  by (simp add: loadVoices_def)

section \<open>What the request carries\<close>

text \<open>
  C2, as the code has it. When the text passes the two checks, \<^verbatim>\<open>handleGenerate\<close> hands the
  adapter one request, whose rate and pitch are the string forms of the numbers in the
  state, in range or not: nothing clamps them. For a rate in \<open>[0.25, 4]\<close> and a pitch in
  \<open>[-20, 20]\<close> this is also the clamped value.
\<close>

theorem request_rate_pitch_unclamped:
  assumes "trim (st_text st) \<noteq> []" and "length (st_text st) \<le> 3000"
  shows "snd (handleGenerate toS convertTextToSpeech st) = [build_request toS st]
     \<and> speechRate (build_request toS st) = toS (st_speechRate st)
     \<and> pitch (build_request toS st) = toS (st_pitch st)
     \<and> (1 / 4 \<le> st_speechRate st \<and> st_speechRate st \<le> 4 \<longrightarrow>
          speechRate (build_request toS st) = toS (spec_clamp (1 / 4) 4 (st_speechRate st)))
     \<and> (- 20 \<le> st_pitch st \<and> st_pitch st \<le> 20 \<longrightarrow>
          pitch (build_request toS st) = toS (spec_clamp (- 20) 20 (st_pitch st)))"
  using assms by (simp add: handleGenerate_def Let_def build_request_def spec_clamp_def)

theorem request_rate_pitch_unclamped_witness:
  "trim (st_text hi_state) \<noteq> [] \<and> length (st_text hi_state) \<le> 3000
   \<and> 1 / 4 \<le> st_speechRate hi_state \<and> st_speechRate hi_state \<le> 4
   \<and> - 20 \<le> st_pitch hi_state \<and> st_pitch hi_state \<le> 20
   \<and> map speechRate (snd (handleGenerate integer_toString
        (convertTextToSpeech_A integer_toString backend_audio) hi_state)) = [''1'']
   \<and> map pitch (snd (handleGenerate integer_toString
        (convertTextToSpeech_A integer_toString backend_audio) hi_state)) = [''0'']
   \<and> integer_toString (spec_clamp (1 / 4) 4 (st_speechRate hi_state)) = ''1''
   \<and> integer_toString (spec_clamp (- 20) 20 (st_pitch hi_state)) = ''0''"
  using request_rate_pitch_unclamped [where st = hi_state and toS = integer_toString
      and convertTextToSpeech = "convertTextToSpeech_A integer_toString backend_audio"]
  by (simp add: hi_state_def initial_app_state_def trim_hi spec_clamp_def
      integer_toString_def int_toString_def nat_toString.simps digit_char_def)

text \<open>
  With the rate 5 and the pitch 25 the request carries \<^verbatim>\<open>"5"\<close> and \<^verbatim>\<open>"25"\<close>, where
  clamping would have given \<^verbatim>\<open>"4"\<close> and \<^verbatim>\<open>"20"\<close>.
\<close>

theorem clamped_rate_counterexample:
  "map speechRate (snd (handleGenerate integer_toString
      (convertTextToSpeech_A integer_toString backend_audio) out_of_range_state)) = [''5'']
   \<and> integer_toString (spec_clamp (1 / 4) 4 (st_speechRate out_of_range_state)) = ''4''
   \<and> map pitch (snd (handleGenerate integer_toString
      (convertTextToSpeech_A integer_toString backend_audio) out_of_range_state)) = [''25'']
   \<and> integer_toString (spec_clamp (- 20) 20 (st_pitch out_of_range_state)) = ''20''
   \<and> map speechRate (snd (handleGenerate integer_toString
      (convertTextToSpeech_A integer_toString backend_audio) out_of_range_state))
     \<noteq> [integer_toString (spec_clamp (1 / 4) 4 (st_speechRate out_of_range_state))]
   \<and> map pitch (snd (handleGenerate integer_toString
      (convertTextToSpeech_A integer_toString backend_audio) out_of_range_state))
     \<noteq> [integer_toString (spec_clamp (- 20) 20 (st_pitch out_of_range_state))]"
  by (simp add: handleGenerate_def Let_def build_request_def out_of_range_state_def
      hi_state_def initial_app_state_def trim_hi spec_clamp_def integer_toString_values)

text \<open>
  C3, as the code has it. \<^verbatim>\<open>handleGenerate\<close> never looks at the voice catalog: with any
  other catalog it makes the same calls and ends in the same state, and when the text
  passes the two checks the request goes out with the selected voice, known or not.
\<close>

theorem voice_catalog_not_consulted:
  "snd (handleGenerate toS convertTextToSpeech (st\<lparr>voices := vs\<rparr>))
     = snd (handleGenerate toS convertTextToSpeech st)
   \<and> fst (handleGenerate toS convertTextToSpeech (st\<lparr>voices := vs\<rparr>))
     = (fst (handleGenerate toS convertTextToSpeech st))\<lparr>voices := vs\<rparr>
   \<and> (trim (st_text st) \<noteq> [] \<and> length (st_text st) \<le> 3000 \<longrightarrow>
        map voiceId (snd (handleGenerate toS convertTextToSpeech st)) = [selectedVoice st])"
  by (auto simp: handleGenerate_def Let_def build_request_def catch_generate_def
      split: sum.splits exn.splits)

theorem voice_catalog_not_consulted_witness:
  "trim (st_text unknown_voice_state) \<noteq> [] \<and> length (st_text unknown_voice_state) \<le> 3000
   \<and> map voiceId (snd (handleGenerate integer_toString
        (convertTextToSpeech_A integer_toString backend_audio) unknown_voice_state))
      = [''Joanna'']"
  using voice_catalog_not_consulted [where st = unknown_voice_state
      and toS = integer_toString
      and convertTextToSpeech = "convertTextToSpeech_A integer_toString backend_audio"]
  by (simp add: unknown_voice_state_def loadVoices_def hi_state_def initial_app_state_def
      trim_hi)

text \<open>
  The selected voice \<^verbatim>\<open>Joanna\<close> is not among the voices loaded last, and yet the request
  is handed to the adapter, no error is set and the audio of the answer is loaded.
\<close>

theorem unknown_voice_counterexample:
  "selectedVoice unknown_voice_state = ''Joanna''
   \<and> ''Joanna'' \<notin> set (map id' (voices unknown_voice_state))
   \<and> map voiceId (snd (handleGenerate integer_toString
        (convertTextToSpeech_A integer_toString backend_audio) unknown_voice_state))
      = [''Joanna'']
   \<and> error (fst (handleGenerate integer_toString
        (convertTextToSpeech_A integer_toString backend_audio) unknown_voice_state)) = None
   \<and> audioUrl (fst (handleGenerate integer_toString
        (convertTextToSpeech_A integer_toString backend_audio) unknown_voice_state))
      = Str ''blob:1''"
  by (simp add: handleGenerate_def Let_def gateway_audio_result build_request_def)
     (simp add: unknown_voice_state_def loadVoices_def hi_state_def initial_app_state_def
        trim_hi)

text \<open>
  C7, as the code has it. A text of more than 3000 code units never reaches the adapter.
  The message is the one for a text that is too long unless the text is blank, in which
  case the check for an empty text, which comes first, has already answered. A text of
  exactly 3000 code units that is not blank passes and its request is handed to the
  adapter.
\<close>

theorem long_text_is_rejected:
  "(3000 < length (st_text st) \<longrightarrow>
      snd (handleGenerate toS convertTextToSpeech st) = []
      \<and> error (fst (handleGenerate toS convertTextToSpeech st)) =
          Some (if trim (st_text st) = [] then ''Please enter some text to convert to speech.''
                else ''Text exceeds maximum length of 3,000 characters.''))
   \<and> (length (st_text st) = 3000 \<and> trim (st_text st) \<noteq> [] \<longrightarrow>
      snd (handleGenerate toS convertTextToSpeech st) = [build_request toS st])"
  by (simp add: handleGenerate_def Let_def)

theorem long_text_is_rejected_witness:
  "3000 < length (st_text long_state)
   \<and> snd (handleGenerate integer_toString
        (convertTextToSpeech_A integer_toString backend_audio) long_state) = []
   \<and> error (fst (handleGenerate integer_toString
        (convertTextToSpeech_A integer_toString backend_audio) long_state)) =
        Some ''Text exceeds maximum length of 3,000 characters.''
   \<and> length (st_text full_state) = 3000 \<and> trim (st_text full_state) \<noteq> []
   \<and> map voiceId (snd (handleGenerate integer_toString
        (convertTextToSpeech_A integer_toString backend_audio) full_state)) = [''Joanna'']"
  using long_text_is_rejected [where st = long_state and toS = integer_toString
      and convertTextToSpeech = "convertTextToSpeech_A integer_toString backend_audio"]
    long_text_is_rejected [where st = full_state and toS = integer_toString
      and convertTextToSpeech = "convertTextToSpeech_A integer_toString backend_audio"]
  by (simp add: long_state_def full_state_def hi_state_def initial_app_state_def
      trim_letters build_request_def)

text \<open>A text of 3001 spaces is answered with the message for an empty text.\<close>

theorem blank_long_text_counterexample:
  "3000 < length (st_text blank_long_state)
   \<and> error (fst (handleGenerate integer_toString
        (convertTextToSpeech_A integer_toString backend_audio) blank_long_state)) =
        Some ''Please enter some text to convert to speech.''
   \<and> error (fst (handleGenerate integer_toString
        (convertTextToSpeech_A integer_toString backend_audio) blank_long_state)) \<noteq>
        Some ''Text exceeds maximum length of 3,000 characters.''"
  by (simp add: handleGenerate_def blank_long_state_def hi_state_def initial_app_state_def
      trim_blank)

section \<open>A JSON answer without an audio URL\<close>

text \<open>
  C4, as the code has it. When the gateway answers ok, with a content type that is not
  audio and a JSON object that has neither an \<^verbatim>\<open>audioUrl\<close> nor a \<^verbatim>\<open>url\<close> property, the
  adapter throws nothing: it returns a result whose \<^verbatim>\<open>audioUrl\<close> is \<^verbatim>\<open>undefined\<close>, with
  the content type and the request identifier of the body or their defaults.
\<close>

theorem missing_audioUrl_returns_undefined:
  assumes "getApiUrl e = Inr apiUrl"
    and "fetch e (apiUrl @ ''/synthesize'') request = Inr r"
    and "ok r"
    and "\<not> includes_str (header_or (content_type r) []) ''audio/''"
    and "json r = Inr (Obj kvs)"
    and "map_of kvs ''audioUrl'' = None" and "map_of kvs ''url'' = None"
  shows "convertTextToSpeech_A toS e request =
     Inr (Obj [(''audioUrl'', Undefined),
               (''contentType'',
                  js_or (case map_of kvs ''contentType'' of None \<Rightarrow> Undefined | Some v \<Rightarrow> v)
                    (Str ''audio/mpeg'')),
               (''requestId'',
                  js_or (case map_of kvs ''requestId'' of None \<Rightarrow> Undefined | Some v \<Rightarrow> v)
                    (Str (randomUUID e)))])"
  using assms by (simp add: convertTextToSpeech_A_def handle_response_A_def js_or_def)

theorem missing_audioUrl_returns_undefined_witness:
  "getApiUrl backend_empty_object = Inr ''https://gateway.example''
   \<and> ok (projr (fetch backend_empty_object ''https://gateway.example/synthesize''
         (build_request integer_toString hi_state)))
   \<and> json (projr (fetch backend_empty_object ''https://gateway.example/synthesize''
         (build_request integer_toString hi_state))) = Inr (Obj [])
   \<and> convertTextToSpeech_A integer_toString backend_empty_object
         (build_request integer_toString hi_state) =
     Inr (Obj [(''audioUrl'', Undefined), (''contentType'', Str ''audio/mpeg''),
               (''requestId'', Str ''uuid-1'')])"
  using missing_audioUrl_returns_undefined [where e = backend_empty_object
      and apiUrl = "''https://gateway.example''" and kvs = "[]" and toS = integer_toString
      and request = "build_request integer_toString hi_state"
      and r = "projr (fetch backend_empty_object ''https://gateway.example/synthesize''
         (build_request integer_toString hi_state))"]
  by (simp add: backend_empty_object_def getApiUrl_def ok_def header_or_def str_or_def
      js_or_def)

text \<open>
  The answer 200 with the body \<^verbatim>\<open>{}\<close>: the adapter returns, and \<^verbatim>\<open>handleGenerate\<close> goes
  on to report success with an \<^verbatim>\<open>audioUrl\<close> that is \<^verbatim>\<open>undefined\<close>.
\<close>

theorem missing_audioUrl_counterexample:
  "\<not> isl (convertTextToSpeech_A integer_toString backend_empty_object
         (build_request integer_toString hi_state))
   \<and> get_prop (projr (convertTextToSpeech_A integer_toString backend_empty_object
         (build_request integer_toString hi_state))) ''audioUrl'' = Inr Undefined
   \<and> error (fst (handleGenerate integer_toString
        (convertTextToSpeech_A integer_toString backend_empty_object) hi_state)) = None
   \<and> success (fst (handleGenerate integer_toString
        (convertTextToSpeech_A integer_toString backend_empty_object) hi_state))
      = Some ''Audio generated successfully!''
   \<and> audioUrl (fst (handleGenerate integer_toString
        (convertTextToSpeech_A integer_toString backend_empty_object) hi_state)) = Undefined"
  by (simp add: handleGenerate_def Let_def convertTextToSpeech_A_def backend_empty_object_def
      getApiUrl_def handle_response_A_def ok_def header_or_def str_or_def js_or_def)
     (simp add: hi_state_def initial_app_state_def trim_hi)

section \<open>The player\<close>

text \<open>
  C6, as the code has it. With the audio element mounted, \<^verbatim>\<open>handleSeek\<close> stores the target
  as the position just as it came, and changes neither the playing flag nor the duration
  nor the volume. For a target between 0 and the duration, which is all the slider can
  send, the stored position is the target clamped into that range.
\<close>

theorem handleSeek_sets_position_unclamped:
  assumes "audio_mounted audio_url"
  shows "currentTime (handleSeek audio_url t st) = t
     \<and> isPlaying (handleSeek audio_url t st) = isPlaying st
     \<and> duration (handleSeek audio_url t st) = duration st
     \<and> volume (handleSeek audio_url t st) = volume st
     \<and> (0 \<le> t \<and> t \<le> duration st \<longrightarrow>
          currentTime (handleSeek audio_url t st) = spec_clamp 0 (duration st) t)"
  using assms by (simp add: handleSeek_def spec_clamp_def)

theorem handleSeek_sets_position_unclamped_witness:
  "audio_mounted (Some ''blob:A'') \<and> (0::real) \<le> 45 \<and> 45 \<le> duration playing_120
   \<and> currentTime (handleSeek (Some ''blob:A'') 45 playing_120) = 45
   \<and> spec_clamp 0 (duration playing_120) 45 = 45
   \<and> isPlaying (handleSeek (Some ''blob:A'') 45 playing_120)"
  using handleSeek_sets_position_unclamped [where audio_url = "Some ''blob:A''" and t = 45
      and st = playing_120]
  by (simp add: audio_mounted_def playing_120_def)

text \<open>
  On a resource of 120 seconds, seeking to -5 leaves the position at -5 and seeking to 500
  leaves it at 500, where clamping gives 0 and 120.
\<close>

theorem seek_clamp_counterexample:
  "duration playing_120 = 120
   \<and> currentTime (handleSeek (Some ''blob:A'') (- 5) playing_120) = - 5
   \<and> spec_clamp 0 (duration playing_120) (- 5) = 0
   \<and> currentTime (handleSeek (Some ''blob:A'') 500 playing_120) = 500
   \<and> spec_clamp 0 (duration playing_120) 500 = 120
   \<and> currentTime (handleSeek (Some ''blob:A'') (- 5) playing_120)
     \<noteq> spec_clamp 0 (duration playing_120) (- 5)
   \<and> currentTime (handleSeek (Some ''blob:A'') 500 playing_120)
     \<noteq> spec_clamp 0 (duration playing_120) 500"
  by (simp add: handleSeek_def audio_mounted_def playing_120_def spec_clamp_def)

text \<open>
  C8, as the code has it. Rendering the player with another \<^verbatim>\<open>audioUrl\<close>, one for which
  the audio element is mounted, sets the position to 0 and the playing flag to false, and
  keeps the volume and also the duration: the duration of the previous resource stays
  until the \<^verbatim>\<open>loadedmetadata\<close> event of the new one replaces it.
\<close>

theorem new_audioUrl_resets_position_and_playing:
  assumes "audio_url \<noteq> audioUrl_prop p" and "audio_mounted audio_url"
  shows "currentTime (state (render audio_url p)) = 0
     \<and> \<not> isPlaying (state (render audio_url p))
     \<and> volume (state (render audio_url p)) = volume (state p)
     \<and> duration (state (render audio_url p)) = duration (state p)
     \<and> duration (updateDuration (Some d) (state (render audio_url p))) = d"
  using assms by (simp add: render_def audioUrl_effect_def updateDuration_def)

theorem new_audioUrl_resets_position_and_playing_witness:
  "Some ''blob:B'' \<noteq> audioUrl_prop player_A \<and> audio_mounted (Some ''blob:B'')
   \<and> currentTime (state (render (Some ''blob:B'') player_A)) = 0
   \<and> \<not> isPlaying (state (render (Some ''blob:B'') player_A))
   \<and> volume (state (render (Some ''blob:B'') player_A)) = 1 / 2
   \<and> duration (state (render (Some ''blob:B'') player_A)) = 120"
  using new_audioUrl_resets_position_and_playing [where audio_url = "Some ''blob:B''"
      and p = player_A]
  by (simp add: player_A_def playing_120_def audio_mounted_def)

text \<open>Replacing a resource of 120 seconds leaves the duration at 120, not at 0.\<close>

theorem duration_reset_counterexample:
  "Some ''blob:B'' \<noteq> audioUrl_prop player_A
   \<and> duration (state (render (Some ''blob:B'') player_A)) = 120
   \<and> duration (state (render (Some ''blob:B'') player_A)) \<noteq> 0"
  by (simp add: render_def player_A_def playing_120_def audioUrl_effect_def audio_mounted_def)

text \<open>
  C1, as the code has it. The player shows a live blob handle \<open>a\<close> and is then rendered with
  another resource \<open>b\<close>. If \<open>b\<close> is a blob the adapter has just created, both handles are
  live from that creation until the render; after the render \<open>a\<close> is no longer live and
  has been revoked exactly once, \<open>b\<close> is live, has not been revoked and is the resource
  shown, and no other handle was touched. If \<open>b\<close> is a remote URL, \<open>a\<close> is revoked exactly
  once all the same.
\<close>

theorem replaced_blob_is_revoked_once:
  assumes "audioUrl_prop p = Some a" and "startsWith a ''blob:''"
    and "a \<in> live (blobs p)" and "a \<notin> set (revoked (blobs p))"
    and "b \<noteq> a" and "b \<notin> set (revoked (blobs p))"
  shows "a \<in> live (blobs (create_blob b p)) \<and> b \<in> live (blobs (create_blob b p))
     \<and> a \<notin> live (blobs (render (Some b) (create_blob b p)))
     \<and> b \<in> live (blobs (render (Some b) (create_blob b p)))
     \<and> count_list (revoked (blobs (render (Some b) (create_blob b p)))) a = 1
     \<and> count_list (revoked (blobs (render (Some b) (create_blob b p)))) b = 0
     \<and> audioUrl_prop (render (Some b) (create_blob b p)) = Some b
     \<and> live (blobs (render (Some b) (create_blob b p))) = insert b (live (blobs p)) - {a}
     \<and> a \<notin> live (blobs (render (Some b) p))
     \<and> count_list (revoked (blobs (render (Some b) p))) a = 1"
  using assms startsWith_nonempty [of a]
  by (auto simp: create_blob_def createObjectURL_def render_def cleanup_effect_def
      cleanupAudioUrl_def revokeObjectURL_def count_list_0_iff)

theorem replaced_blob_is_revoked_once_witness:
  "audioUrl_prop player_A = Some ''blob:A'' \<and> startsWith ''blob:A'' ''blob:''
   \<and> ''blob:A'' \<in> live (blobs player_A) \<and> ''blob:A'' \<notin> set (revoked (blobs player_A))
   \<and> ''blob:B'' \<notin> set (revoked (blobs player_A))
   \<and> blobs (render (Some ''blob:B'') (create_blob ''blob:B'' player_A))
      = \<lparr>live = {''blob:B''}, revoked = [''blob:A'']\<rparr>"
  using replaced_blob_is_revoked_once [where p = player_A and a = "''blob:A''"
      and b = "''blob:B''"]
  by (auto simp: player_A_def create_blob_def createObjectURL_def render_def
      cleanup_effect_def cleanupAudioUrl_def revokeObjectURL_def)

text \<open>
  After the adapter has created the second blob and before the player is rendered with
  it, the first is still the one shown and both are live.
\<close>

theorem both_blobs_live_counterexample:
  "''blob:A'' \<in> live (blobs (create_blob ''blob:B'' player_A))
   \<and> ''blob:B'' \<in> live (blobs (create_blob ''blob:B'' player_A))
   \<and> audioUrl_prop (create_blob ''blob:B'' player_A) = Some ''blob:A''
   \<and> revoked (blobs (create_blob ''blob:B'' player_A)) = []"
  by (simp add: create_blob_def createObjectURL_def player_A_def)

text \<open>Unmounting the player revokes the blob it shows, once.\<close>

lemma unmount_revokes_current_blob:
  assumes "audioUrl_prop p = Some a" and "startsWith a ''blob:''"
  shows "unmount p = revokeObjectURL a (blobs p)"
  using assms startsWith_nonempty [of a]
  by (simp add: unmount_def cleanup_effect_def cleanupAudioUrl_def)

end
